theory Spec2Isabelle
  imports Main
begin

section \<open>Strings of the source language\<close>

text \<open>
  A Python \<^verbatim>\<open>str\<close> is a sequence of Unicode code points, and \<^verbatim>\<open>len\<close> counts code
  points. A string is therefore modelled as a list of code points (natural numbers), so
  that an emoji is one element. ASCII literals of the source are written through
  \<open>ascii\<close>.
\<close>

type_synonym pystr = "nat list"

definition ascii :: "string \<Rightarrow> pystr" where
  "ascii cs = map of_char cs"

text \<open>\<^verbatim>\<open>str(n)\<close> / \<^verbatim>\<open>f"{n}"\<close> for an integer: decimal digits, a minus sign when negative.\<close>

fun str_nat :: "nat \<Rightarrow> pystr" where
  "str_nat n = (if n < 10 then [48 + n] else str_nat (n div 10) @ [48 + n mod 10])"

declare str_nat.simps [simp del]

definition str_int :: "int \<Rightarrow> pystr" where
  "str_int i = (if i < 0 then 45 # str_nat (nat (- i)) else str_nat (nat i))"

text \<open>
  \<^verbatim>\<open>str.isspace\<close> for one code point: the code points CPython classifies as whitespace.
  \<^verbatim>\<open>str.strip()\<close> without argument removes the leading and trailing code points of
  this class.
\<close>

definition py_isspace :: "nat \<Rightarrow> bool" where
  "py_isspace c \<longleftrightarrow>
     (9 \<le> c \<and> c \<le> 13) \<or> (28 \<le> c \<and> c \<le> 32) \<or> c = 133 \<or> c = 160 \<or> c = 5760 \<or>
     (8192 \<le> c \<and> c \<le> 8202) \<or> c = 8232 \<or> c = 8233 \<or> c = 8239 \<or> c = 8287 \<or> c = 12288"

definition lstrip :: "pystr \<Rightarrow> pystr" where
  "lstrip s = dropWhile py_isspace s"

definition rstrip :: "pystr \<Rightarrow> pystr" where
  "rstrip s = rev (dropWhile py_isspace (rev s))"

definition strip :: "pystr \<Rightarrow> pystr" where
  "strip s = rstrip (lstrip s)"

text \<open>
  \<^verbatim>\<open>str.lower()\<close> restricted to ASCII text: \<open>A\<close>..\<open>Z\<close> become \<open>a\<close>..\<open>z\<close>, every other
  code point is kept. The source applies \<^verbatim>\<open>lower\<close> in \<^verbatim>\<open>sanitize_username\<close> to the result
  of the substitution only, which consists of ASCII letters, digits and underscores
  (lemma \<open>re_sub_nonword_ascii\<close> below), where the full Unicode lowering is this map.
\<close>

definition lower_char :: "nat \<Rightarrow> nat" where
  "lower_char c = (if 65 \<le> c \<and> c \<le> 90 then c + 32 else c)"

definition lower_ascii :: "pystr \<Rightarrow> pystr" where
  "lower_ascii s = map lower_char s"


section \<open>Configuration constants\<close>

definition DEFAULT_EMOJI :: pystr where
  "DEFAULT_EMOJI = [129513]"

definition STATIC_SUFFIX :: pystr where
  "STATIC_SUFFIX = ascii ''_static''"

definition VIDEO_SUFFIX :: pystr where
  "VIDEO_SUFFIX = ascii ''_video''"


section \<open>Name derivation\<close>

text \<open>
  The character class \<^verbatim>\<open>[a-zA-Z0-9_]\<close> of the pattern in \<^verbatim>\<open>sanitize_username\<close>, and
  \<^verbatim>\<open>re.sub(r"[^a-zA-Z0-9_]", "_", username)\<close>: each code point outside the class is one
  match and is replaced by one underscore (code point 95).
\<close>

definition word_char :: "nat \<Rightarrow> bool" where
  "word_char c \<longleftrightarrow> (97 \<le> c \<and> c \<le> 122) \<or> (65 \<le> c \<and> c \<le> 90) \<or> (48 \<le> c \<and> c \<le> 57) \<or> c = 95"

definition re_sub_nonword :: "pystr \<Rightarrow> pystr" where
  "re_sub_nonword s = map (\<lambda>c. if word_char c then c else 95) s"

definition sanitize_username :: "pystr \<Rightarrow> int \<Rightarrow> pystr" where
  "sanitize_username username user_id =
     (if username = [] then ascii ''user'' @ str_int user_id
      else lower_ascii (re_sub_nonword username))"

datatype kind = Static | Video

text \<open>
  The user object of an update: \<^verbatim>\<open>username\<close> and \<^verbatim>\<open>first_name\<close> may be \<^verbatim>\<open>None\<close>
  (the source writes \<^verbatim>\<open>user.username or ""\<close> and \<^verbatim>\<open>user.first_name or 'User'\<close>).
\<close>

record tg_user =
  user_id :: int
  username :: "pystr option"
  first_name :: "pystr option"

definition or_str :: "pystr option \<Rightarrow> pystr \<Rightarrow> pystr" where
  "or_str x d = (case x of None \<Rightarrow> d | Some s \<Rightarrow> if s = [] then d else s)"

text \<open>Lines 152 to 155 of \<^verbatim>\<open>get_or_create_set\<close>: the name and the title of the set.\<close>

definition set_name_of :: "tg_user \<Rightarrow> pystr \<Rightarrow> kind \<Rightarrow> pystr" where
  "set_name_of user bot_username k =
     (let uname = sanitize_username (or_str (username user) []) (user_id user);
          suffix = (if k = Static then STATIC_SUFFIX else VIDEO_SUFFIX)
      in uname @ suffix @ ascii ''_by_'' @ bot_username)"

definition set_title_of :: "tg_user \<Rightarrow> kind \<Rightarrow> pystr" where
  "set_title_of user k =
     or_str (first_name user) (ascii ''User'') @ ascii [CHR 0x27] @ ascii ''s '' @
     (if k = Static then ascii ''Static'' else ascii ''Video'') @ ascii '' Stickers''"

text \<open>
  The name derivation in the words of the specification, to compare with the code:
  the owner token is the handle with every character outside \<^verbatim>\<open>[A-Za-z0-9_]\<close> replaced
  by an underscore and the result lower-cased, or \<^verbatim>\<open>user<ownerId>\<close> for an empty
  handle; then the kind suffix; then \<^verbatim>\<open>_by_<botHandle>\<close>.
\<close>

fun spec_token_chars :: "pystr \<Rightarrow> pystr" where
  "spec_token_chars [] = []"
| "spec_token_chars (c # cs) =
     (if 48 \<le> c \<and> c \<le> 57 \<or> c = 95 \<or> (97 \<le> c \<and> c \<le> 122) then c
      else if 65 \<le> c \<and> c \<le> 90 then c + 32
      else 95) # spec_token_chars cs"

definition spec_owner_token :: "pystr \<Rightarrow> int \<Rightarrow> pystr" where
  "spec_owner_token handle owner_id =
     (if handle = [] then ascii ''user'' @ str_int owner_id else spec_token_chars handle)"

definition spec_kind_suffix :: "kind \<Rightarrow> pystr" where
  "spec_kind_suffix k = (case k of Static \<Rightarrow> ascii ''_static'' | Video \<Rightarrow> ascii ''_video'')"


section \<open>The tag bound to a sticker\<close>

text \<open>
  Lines 239 and 240 of \<^verbatim>\<open>handle_media\<close>: the caption of the message (\<^verbatim>\<open>None\<close> when
  the message has none) is stripped, and it is the tag when it is non-empty and has at
  most 10 code points.
\<close>

definition choose_emoji :: "pystr option \<Rightarrow> pystr" where
  "choose_emoji message_caption =
     (let caption = strip (or_str message_caption [])
      in if caption \<noteq> [] \<and> length caption \<le> 10 then caption else DEFAULT_EMOJI)"

text \<open>\<^verbatim>\<open>add_to_set\<close> binds \<^verbatim>\<open>emoji_list=[emoji or DEFAULT_EMOJI]\<close> to the sticker.\<close>

definition emoji_list_of :: "pystr \<Rightarrow> pystr list" where
  "emoji_list_of emoji = [or_str (Some emoji) DEFAULT_EMOJI]"

definition bound_tags :: "pystr option \<Rightarrow> pystr list" where
  "bound_tags message_caption = emoji_list_of (choose_emoji message_caption)"


section \<open>Exceptions and results\<close>

text \<open>
  Every exception the source raises itself is a \<^verbatim>\<open>RuntimeError\<close> with a message.
  Exceptions raised inside library calls (the bot API, the file system, the subprocess
  module) are \<open>LibraryError\<close>; \<^verbatim>\<open>Path(None)\<close> raises \<^verbatim>\<open>TypeError\<close>, a division by
  zero \<^verbatim>\<open>ZeroDivisionError\<close>, and the image library's \<^verbatim>\<open>resize\<close> to an empty size
  \<^verbatim>\<open>ValueError\<close>. All of them are
  subclasses of \<^verbatim>\<open>Exception\<close>, so an \<^verbatim>\<open>except Exception\<close> clause catches each.
  A call that raises is the value \<open>Inl e\<close>, a call that returns \<open>v\<close> is \<open>Inr v\<close>.
\<close>

datatype exn_type = RuntimeError | TypeError | ZeroDivisionError | ValueError | LibraryError

datatype py_exn = Exn (exn_type: exn_type) (exn_message: pystr)

type_synonym bytes = "nat list"


section \<open>Retrieval of the media of a message\<close>

text \<open>
  The fields of a message that \<^verbatim>\<open>tg_download_to_bytes\<close> and \<^verbatim>\<open>handle_media\<close> read.
  \<open>photo\<close> is the tuple of photo sizes (empty when the message has no photo); an
  attachment is represented by its file identifier.
\<close>

record tg_file =
  file_id :: pystr
  file_path :: "pystr option"

record message =
  photo :: "pystr list"
  animation :: "pystr option"
  video :: "pystr option"
  document :: "pystr option"
  caption :: "pystr option"

text \<open>
  The library calls of the function, taken as parameters: \<^verbatim>\<open>get_file\<close> and
  \<^verbatim>\<open>download_as_bytearray\<close> of the bot framework, \<^verbatim>\<open>Path(p).suffix\<close> and \<^verbatim>\<open>str.lower\<close>.
\<close>

record download_env =
  get_file :: "pystr \<Rightarrow> py_exn + tg_file"
  download_as_bytearray :: "tg_file \<Rightarrow> py_exn + bytes"
  path_suffix :: "pystr \<Rightarrow> pystr"
  str_lower :: "pystr \<Rightarrow> pystr"

definition fetch :: "download_env \<Rightarrow> pystr \<Rightarrow> py_exn + (tg_file \<times> bytes)" where
  "fetch env fid =
     (case get_file env fid of
        Inl e \<Rightarrow> Inl e
      | Inr file \<Rightarrow>
          (case download_as_bytearray env file of
             Inl e \<Rightarrow> Inl e
           | Inr b \<Rightarrow> Inr (file, b)))"

definition suffix_lower :: "download_env \<Rightarrow> tg_file \<Rightarrow> py_exn + pystr" where
  "suffix_lower env file =
     (case file_path file of
        None \<Rightarrow> Inl (Exn TypeError (ascii ''expected str, bytes or os.PathLike object, not NoneType''))
      | Some p \<Rightarrow> Inr (str_lower env (path_suffix env p)))"

definition tg_download_to_bytes :: "download_env \<Rightarrow> message option \<Rightarrow> py_exn + (bytes \<times> pystr)" where
  "tg_download_to_bytes env update_message =
     (case update_message of
        None \<Rightarrow> Inl (Exn RuntimeError (ascii ''No message to process.''))
      | Some msg \<Rightarrow>
          if photo msg \<noteq> [] then
            (case fetch env (last (photo msg)) of
               Inl e \<Rightarrow> Inl e
             | Inr (file, b) \<Rightarrow> Inr (b, ascii ''.jpg''))
          else if animation msg \<noteq> None then
            (case fetch env (the (animation msg)) of
               Inl e \<Rightarrow> Inl e
             | Inr (file, b) \<Rightarrow> Inr (b, ascii ''.gif''))
          else if video msg \<noteq> None then
            (case fetch env (the (video msg)) of
               Inl e \<Rightarrow> Inl e
             | Inr (file, b) \<Rightarrow>
                 (case suffix_lower env file of
                    Inl e \<Rightarrow> Inl e
                  | Inr ext \<Rightarrow> Inr (b, if ext = [] then ascii ''.mp4'' else ext)))
          else if document msg \<noteq> None then
            (case fetch env (the (document msg)) of
               Inl e \<Rightarrow> Inl e
             | Inr (file, b) \<Rightarrow>
                 (case suffix_lower env file of
                    Inl e \<Rightarrow> Inl e
                  | Inr ext \<Rightarrow> Inr (b, if ext = [] then ascii ''.bin'' else ext)))
          else Inl (Exn RuntimeError (ascii ''Unsupported message type.'')))"

text \<open>\<^verbatim>\<open>ensure_ffmpeg\<close>: \<open>found\<close> is the truth value of \<^verbatim>\<open>shutil.which(FF.ffmpeg)\<close>.\<close>

definition ensure_ffmpeg :: "bool \<Rightarrow> py_exn + unit" where
  "ensure_ffmpeg found =
     (if \<not> found
      then Inl (Exn RuntimeError
        (ascii ''FFmpeg not found. Please install FFmpeg and ensure it'' @ ascii [CHR 0x27] @
         ascii ''s in PATH.''))
      else Inr ())"


section \<open>Sticker set management\<close>

text \<open>
  The platform is reached through the bot API only. Its state is a parameter \<open>'p\<close>, and
  each API method is a function of that state: a call that raises leaves the state as
  it was, a mutating call that returns gives the new state. \<open>get_me\<close> gives the
  \<^verbatim>\<open>username\<close> of the bot. \<open>placeholder_webp\<close> stands for the bytes the image library
  produces for the transparent 32 by 32 placeholder.
\<close>

record sticker_set =
  stickers :: "pystr list"

record input_sticker =
  sticker_filename :: pystr
  sticker_content :: bytes
  emoji_list :: "pystr list"

datatype sticker_format = FormatWEBP | FormatVIDEO

datatype sticker_type = REGULAR

record create_args =
  arg_user_id :: int
  arg_name :: pystr
  arg_title :: pystr
  arg_stickers :: "input_sticker list"
  arg_sticker_format :: sticker_format
  arg_sticker_type :: sticker_type

record 'p bot_api =
  get_me :: "'p \<Rightarrow> py_exn + pystr"
  get_sticker_set :: "'p \<Rightarrow> pystr \<Rightarrow> py_exn + sticker_set"
  create_new_sticker_set :: "'p \<Rightarrow> create_args \<Rightarrow> py_exn + 'p"
  delete_sticker_from_set :: "'p \<Rightarrow> pystr \<Rightarrow> py_exn + 'p"
  add_sticker_to_set :: "'p \<Rightarrow> int \<Rightarrow> pystr \<Rightarrow> input_sticker \<Rightarrow> py_exn + 'p"
  placeholder_webp :: bytes

text \<open>The calls a function makes, in order, are returned with its result.\<close>

datatype api_call =
    GetMe
  | GetStickerSet pystr
  | CreateNewStickerSet create_args
  | DeleteStickerFromSet pystr
  | AddStickerToSet int pystr input_sticker
  | LogWarning py_exn

definition is_mutation :: "api_call \<Rightarrow> bool" where
  "is_mutation c =
     (case c of CreateNewStickerSet a \<Rightarrow> True | DeleteStickerFromSet f \<Rightarrow> True
      | AddStickerToSet u n s \<Rightarrow> True | _ \<Rightarrow> False)"

definition is_creation :: "api_call \<Rightarrow> bool" where
  "is_creation c = (case c of CreateNewStickerSet a \<Rightarrow> True | _ \<Rightarrow> False)"

definition placeholder_args :: "'p bot_api \<Rightarrow> tg_user \<Rightarrow> pystr \<Rightarrow> pystr \<Rightarrow> kind \<Rightarrow> create_args" where
  "placeholder_args api user set_name set_title k =
     \<lparr>arg_user_id = user_id user, arg_name = set_name, arg_title = set_title,
      arg_stickers = [\<lparr>sticker_filename = ascii ''ph.webp'',
                       sticker_content = placeholder_webp api,
                       emoji_list = [DEFAULT_EMOJI]\<rparr>],
      arg_sticker_format = (if k = Static then FormatWEBP else FormatVIDEO),
      arg_sticker_type = REGULAR\<rparr>"

text \<open>
  Lines 185 to 191, the removal of the placeholder: any exception of the lookup or of
  the deletion is logged and swallowed.
\<close>

definition remove_placeholder :: "'p bot_api \<Rightarrow> 'p \<Rightarrow> pystr \<Rightarrow> api_call list \<times> 'p" where
  "remove_placeholder api p set_name =
     (case get_sticker_set api p set_name of
        Inl e \<Rightarrow> ([GetStickerSet set_name, LogWarning e], p)
      | Inr stset \<Rightarrow>
          if stickers stset \<noteq> [] then
            (case delete_sticker_from_set api p (hd (stickers stset)) of
               Inl e \<Rightarrow>
                 ([GetStickerSet set_name, DeleteStickerFromSet (hd (stickers stset)),
                   LogWarning e], p)
             | Inr p' \<Rightarrow>
                 ([GetStickerSet set_name, DeleteStickerFromSet (hd (stickers stset))], p'))
          else ([GetStickerSet set_name], p))"

text \<open>
  \<^verbatim>\<open>get_or_create_set\<close>. The result is the list of calls made, the state of the platform
  afterwards, and either the exception that left the function or the pair
  \<^verbatim>\<open>(set_name, set_title)\<close>. The \<^verbatim>\<open>kind\<close> argument is one of the two values the assertion
  at line 146 admits.
\<close>

definition get_or_create_set ::
  "'p bot_api \<Rightarrow> 'p \<Rightarrow> tg_user \<Rightarrow> kind \<Rightarrow> api_call list \<times> 'p \<times> (py_exn + (pystr \<times> pystr))" where
  "get_or_create_set api p user k =
     (case get_me api p of
        Inl e \<Rightarrow> ([GetMe], p, Inl e)
      | Inr bot_username \<Rightarrow>
          (let set_name = set_name_of user bot_username k;
               set_title = set_title_of user k
           in case get_sticker_set api p set_name of
                Inr found \<Rightarrow> ([GetMe, GetStickerSet set_name], p, Inr (set_name, set_title))
              | Inl not_found \<Rightarrow>
                  (let args = placeholder_args api user set_name set_title k
                   in case create_new_sticker_set api p args of
                        Inl e \<Rightarrow>
                          ([GetMe, GetStickerSet set_name, CreateNewStickerSet args], p, Inl e)
                      | Inr p1 \<Rightarrow>
                          (case remove_placeholder api p1 set_name of
                             (calls, p2) \<Rightarrow>
                               ([GetMe, GetStickerSet set_name, CreateNewStickerSet args] @ calls,
                                p2, Inr (set_name, set_title))))))"

text \<open>
  \<^verbatim>\<open>add_to_set\<close>: the sticker is added with its tag, the set is fetched again, and the
  file identifier of its last sticker is returned (\<^verbatim>\<open>stickers[-1]\<close> raises on an empty
  set).
\<close>

definition make_input_sticker :: "bytes \<Rightarrow> kind \<Rightarrow> pystr \<Rightarrow> input_sticker" where
  "make_input_sticker sticker_bytes k emoji =
     (if k = Static
      then \<lparr>sticker_filename = ascii ''sticker.webp'', sticker_content = sticker_bytes,
            emoji_list = emoji_list_of emoji\<rparr>
      else \<lparr>sticker_filename = ascii ''sticker.webm'', sticker_content = sticker_bytes,
            emoji_list = emoji_list_of emoji\<rparr>)"

definition add_to_set ::
  "'p bot_api \<Rightarrow> 'p \<Rightarrow> tg_user \<Rightarrow> pystr \<Rightarrow> bytes \<Rightarrow> kind \<Rightarrow> pystr \<Rightarrow> 'p \<times> (py_exn + pystr)" where
  "add_to_set api p user set_name sticker_bytes k emoji =
     (case add_sticker_to_set api p (user_id user) set_name
             (make_input_sticker sticker_bytes k emoji) of
        Inl e \<Rightarrow> (p, Inl e)
      | Inr p1 \<Rightarrow>
          (case get_sticker_set api p1 set_name of
             Inl e \<Rightarrow> (p1, Inl e)
           | Inr stset \<Rightarrow>
               if stickers stset = []
               then (p1, Inl (Exn LibraryError (ascii ''tuple index out of range'')))
               else (p1, Inr (last (stickers stset)))))"

text \<open>
  A platform to run the functions on: the registry of sticker sets as an association
  list from the name of a set to the file identifiers of its stickers. A lookup fails
  when the name is absent, a creation fails when the name is taken, and the stickers
  of a set get the identifiers \<^verbatim>\<open><name>#<position>\<close>.
\<close>

type_synonym registry = "(pystr \<times> pystr list) list"

definition new_ids :: "pystr \<Rightarrow> nat \<Rightarrow> nat \<Rightarrow> pystr list" where
  "new_ids set_name start n = map (\<lambda>i. set_name @ ascii ''#'' @ str_nat i) [start ..< start + n]"

definition registry_api :: "pystr \<Rightarrow> registry bot_api" where
  "registry_api bot_username =
     \<lparr>get_me = (\<lambda>p. Inr bot_username),
      get_sticker_set = (\<lambda>p n.
        case map_of p n of
          None \<Rightarrow> Inl (Exn LibraryError (ascii ''Stickerset_invalid''))
        | Some ids \<Rightarrow> Inr \<lparr>stickers = ids\<rparr>),
      create_new_sticker_set = (\<lambda>p a.
        case map_of p (arg_name a) of
          Some ids \<Rightarrow> Inl (Exn LibraryError (ascii ''Sticker set name is already occupied''))
        | None \<Rightarrow> Inr ((arg_name a, new_ids (arg_name a) 0 (length (arg_stickers a))) # p)),
      delete_sticker_from_set = (\<lambda>p fid. Inr (map (\<lambda>(n, ids). (n, removeAll fid ids)) p)),
      add_sticker_to_set = (\<lambda>p u n s.
        case map_of p n of
          None \<Rightarrow> Inl (Exn LibraryError (ascii ''Stickerset_invalid''))
        | Some ids \<Rightarrow> Inr (map (\<lambda>(m, js). if m = n then (m, js @ new_ids n (length js + 1) 1) else (m, js)) p)),
      placeholder_webp = []\<rparr>"

text \<open>
  The view of the caller that loses a race: its lookup does not find the set, and when
  its creation request arrives the name has been taken by the other caller.
\<close>

definition lost_race_api :: "pystr \<Rightarrow> unit bot_api" where
  "lost_race_api bot_username =
     \<lparr>get_me = (\<lambda>p. Inr bot_username),
      get_sticker_set = (\<lambda>p n. Inl (Exn LibraryError (ascii ''Stickerset_invalid''))),
      create_new_sticker_set = (\<lambda>p a.
        Inl (Exn LibraryError (ascii ''Sticker set name is already occupied''))),
      delete_sticker_from_set = (\<lambda>p fid. Inr ()),
      add_sticker_to_set = (\<lambda>p u n s. Inr ()),
      placeholder_webp = []\<rparr>"


section \<open>Floating-point arithmetic of the image converter\<close>

text \<open>
  A Python \<^verbatim>\<open>float\<close> is an IEEE 754 binary64 number, and \<^verbatim>\<open>/\<close> and \<^verbatim>\<open>*\<close> return the
  exact result rounded to the nearest representable number, ties to even. The values
  of \<^verbatim>\<open>image_to_sticker_webp\<close> are non-negative and far from the overflow and
  subnormal ranges, so a float is modelled as a pair \<open>(m, e)\<close> of integers standing
  for \<open>m * 2 ^ e\<close>, where rounding gives \<open>2 ^ 52 \<le> m \<le> 2 ^ 53\<close> (53 significant
  bits), or \<open>m = 0\<close>.
\<close>

type_synonym float64 = "int \<times> int"

function bit_length :: "int \<Rightarrow> int" where
  "bit_length n = (if n \<le> 0 then 0 else 1 + bit_length (n div 2))"
  by pat_completeness auto
termination
  by (relation "measure nat") auto

declare bit_length.simps [simp del]

function pow2 :: "int \<Rightarrow> int" where
  "pow2 k = (if k \<le> 0 then 1 else 2 * pow2 (k - 1))"
  by pat_completeness auto
termination
  by (relation "measure nat") auto

declare pow2.simps [simp del]

text \<open>The quotient \<open>n / d\<close> rounded to the nearest integer, ties to even.\<close>

definition round_half_even :: "int \<Rightarrow> int \<Rightarrow> int" where
  "round_half_even n d =
     (if 2 * (n mod d) < d then n div d
      else if d < 2 * (n mod d) then n div d + 1
      else if even (n div d) then n div d else n div d + 1)"

text \<open>
  \<open>shifted n d s\<close> is \<open>n / d * 2 ^ s\<close> as a fraction. A positive fraction \<open>n / d\<close> is
  rounded to 53 significant bits: with \<open>s\<close> computed from the bit lengths,
  \<open>2 ^ 52 < n / d * 2 ^ s < 2 ^ 54\<close>; when the scaled fraction does not fit 53 bits
  the shift is one less; the scaled fraction is then rounded to an integer.
\<close>

definition shifted :: "int \<Rightarrow> int \<Rightarrow> int \<Rightarrow> int \<times> int" where
  "shifted n d s = (if 0 \<le> s then (n * pow2 s, d) else (n, d * pow2 (- s)))"

definition round_at :: "int \<Rightarrow> int \<Rightarrow> int \<Rightarrow> float64" where
  "round_at n d s = (round_half_even (fst (shifted n d s)) (snd (shifted n d s)), - s)"

definition fits_53 :: "int \<Rightarrow> int \<Rightarrow> int \<Rightarrow> bool" where
  "fits_53 n d s \<longleftrightarrow> fst (shifted n d s) < pow2 53 * snd (shifted n d s)"

definition round_from :: "int \<Rightarrow> int \<Rightarrow> int \<Rightarrow> float64" where
  "round_from n d s = (if fits_53 n d s then round_at n d s else round_at n d (s - 1))"

definition fl_ratio :: "int \<Rightarrow> int \<Rightarrow> float64" where
  "fl_ratio n d =
     (if n = 0 then (0, 0) else round_from n d (53 - (bit_length n - bit_length d)))"

text \<open>The conversion of an integer, division, multiplication and comparison.\<close>

definition float_of_int :: "int \<Rightarrow> float64" where
  "float_of_int n = fl_ratio n 1"

definition fl_div :: "float64 \<Rightarrow> float64 \<Rightarrow> float64" where
  "fl_div x y =
     fl_ratio (fst (shifted (fst x) (fst y) (snd x - snd y)))
              (snd (shifted (fst x) (fst y) (snd x - snd y)))"

definition fl_mul :: "float64 \<Rightarrow> float64 \<Rightarrow> float64" where
  "fl_mul x y =
     fl_ratio (fst (shifted (fst x * fst y) 1 (snd x + snd y)))
              (snd (shifted (fst x * fst y) 1 (snd x + snd y)))"

definition fl_less :: "float64 \<Rightarrow> float64 \<Rightarrow> bool" where
  "fl_less x y \<longleftrightarrow>
     (if snd y \<le> snd x then fst x * pow2 (snd x - snd y) < fst y
      else fst x < fst y * pow2 (snd y - snd x))"

text \<open>\<^verbatim>\<open>int(x)\<close> for a non-negative float: truncation.\<close>

definition int_of_float :: "float64 \<Rightarrow> int" where
  "int_of_float x = (if 0 \<le> snd x then fst x * pow2 (snd x) else fst x div pow2 (- snd x))"


section \<open>Image conversion\<close>

text \<open>
  \<^verbatim>\<open>image_to_sticker_webp\<close> on the size \<^verbatim>\<open>(w, h)\<close> of the decoded image: the result is
  the size of the image that is saved. Decoding, resampling and encoding are done by
  the image library and change no size other than through the \<^verbatim>\<open>resize\<close> call.
  \<open>resize_to\<close> is that call on sizes: the library refuses a size with an edge below
  one pixel with a \<^verbatim>\<open>ValueError\<close>. \<open>resized\<close> is lines 98 and 99, with the value of
  \<^verbatim>\<open>scale\<close> as an argument.
\<close>

definition resize_to :: "int \<times> int \<Rightarrow> py_exn + (int \<times> int)" where
  "resize_to size_out =
     (if fst size_out < 1 \<or> snd size_out < 1
      then Inl (Exn ValueError (ascii ''height and width must be > 0''))
      else Inr size_out)"

definition resized :: "int \<Rightarrow> int \<Rightarrow> float64 \<Rightarrow> py_exn + (int \<times> int)" where
  "resized w h scale =
     (if fl_less scale (float_of_int 1)
      then resize_to (int_of_float (fl_mul (float_of_int w) scale),
                      int_of_float (fl_mul (float_of_int h) scale))
      else Inr (w, h))"

definition image_to_sticker_webp_size :: "int \<times> int \<Rightarrow> py_exn + (int \<times> int)" where
  "image_to_sticker_webp_size size_in =
     (if max (fst size_in) (snd size_in) = 0
      then Inl (Exn ZeroDivisionError (ascii ''float division by zero''))
      else resized (fst size_in) (snd size_in)
             (fl_div (float_of_int 512)
                     (float_of_int (max (fst size_in) (snd size_in)))))"


section \<open>Video conversion\<close>

text \<open>
  The module-level \<^verbatim>\<open>FF.ffmpeg\<close> is \<^verbatim>\<open>shutil.which("ffmpeg") or "ffmpeg"\<close>, computed
  once at import time.
\<close>

definition FfmpegPaths_ffmpeg :: "pystr option \<Rightarrow> pystr" where
  "FfmpegPaths_ffmpeg which_at_import = or_str which_at_import (ascii ''ffmpeg'')"

text \<open>The argument list of lines 124 to 135.\<close>

definition vf_argument :: pystr where
  "vf_argument =
     ascii ''scale='' @ ascii [CHR 0x27] @ ascii ''min(512,iw)'' @ ascii [CHR 0x27] @
     ascii '':-2:force_original_aspect_ratio=decrease,fps=30''"

definition ffmpeg_cmd :: "pystr \<Rightarrow> pystr \<Rightarrow> pystr \<Rightarrow> pystr list" where
  "ffmpeg_cmd ffmpeg in_path out_path =
     [ffmpeg, ascii ''-y'',
      ascii ''-i'', in_path,
      ascii ''-an'',
      ascii ''-t'', ascii ''3'',
      ascii ''-vf'', vf_argument,
      ascii ''-c:v'', ascii ''libvpx-vp9'',
      ascii ''-b:v'', ascii ''420k'',
      ascii ''-crf'', ascii ''32'',
      ascii ''-deadline'', ascii ''realtime'',
      out_path]"

text \<open>
  The file system: the directories and the files (path and content) that exist.
  \<^verbatim>\<open>shutil.rmtree\<close> of a directory removes it and everything below it; it is what leaving
  the \<^verbatim>\<open>with tempfile.TemporaryDirectory()\<close> block runs, on a normal exit and on an
  exception alike.
\<close>

record fs_state =
  dirs :: "pystr list"
  files :: "(pystr \<times> bytes) list"

definition under :: "pystr \<Rightarrow> pystr \<Rightarrow> bool" where
  "under td p \<longleftrightarrow> p = td \<or> take (length td + 1) p = td @ ascii ''/''"

definition rmtree :: "pystr \<Rightarrow> fs_state \<Rightarrow> fs_state" where
  "rmtree td fs =
     \<lparr>dirs = filter (\<lambda>d. \<not> under td d) (dirs fs),
      files = filter (\<lambda>f. \<not> under td (fst f)) (files fs)\<rparr>"

definition path_exists :: "fs_state \<Rightarrow> pystr \<Rightarrow> bool" where
  "path_exists fs p \<longleftrightarrow> p \<in> set (dirs fs) \<or> p \<in> set (map fst (files fs))"

definition read_bytes :: "fs_state \<Rightarrow> pystr \<Rightarrow> py_exn + bytes" where
  "read_bytes fs p =
     (case map_of (files fs) p of
        None \<Rightarrow> Inl (Exn LibraryError (ascii ''cannot read file''))
      | Some b \<Rightarrow> Inr b)"

record proc_result =
  returncode :: int
  stderr :: bytes

text \<open>
  What the function takes from its environment: \<^verbatim>\<open>shutil.which\<close>, the creation of the
  temporary directory (its fresh path, or an exception), whether writing a file raises,
  the run of the transcoder (an exception when it cannot be started, else its exit
  status and error output and the file system it leaves; a process killed by a signal
  has a negative exit status), and the decoding of the error output.
\<close>

record video_env =
  which :: "pystr \<Rightarrow> pystr option"
  mkdtemp :: "fs_state \<Rightarrow> py_exn + pystr"
  write_error :: "fs_state \<Rightarrow> pystr \<Rightarrow> py_exn option"
  subprocess_run :: "pystr list \<Rightarrow> fs_state \<Rightarrow> py_exn + (proc_result \<times> fs_state)"
  decode_ignore :: "bytes \<Rightarrow> pystr"

datatype fs_op =
    Mkdtemp pystr
  | WriteBytes pystr
  | Run "pystr list"
  | ReadBytes pystr
  | Rmtree pystr

definition write_bytes :: "video_env \<Rightarrow> fs_state \<Rightarrow> pystr \<Rightarrow> bytes \<Rightarrow> py_exn + fs_state" where
  "write_bytes env fs p b =
     (case write_error env fs p of
        Some e \<Rightarrow> Inl e
      | None \<Rightarrow> Inr (fs\<lparr>files := (p, b) # files fs\<rparr>))"

text \<open>The body of the \<^verbatim>\<open>with\<close> block, lines 120 to 140.\<close>

definition transcode_in ::
  "video_env \<Rightarrow> pystr \<Rightarrow> pystr \<Rightarrow> fs_state \<Rightarrow> bytes \<Rightarrow> fs_op list \<times> fs_state \<times> (py_exn + bytes)" where
  "transcode_in env ffmpeg td fs src_bytes =
     (let in_path = td @ ascii ''/in.bin'';
          out_path = td @ ascii ''/out.webm''
      in case write_bytes env fs in_path src_bytes of
           Inl e \<Rightarrow> ([WriteBytes in_path], fs, Inl e)
         | Inr fs1 \<Rightarrow>
             (let cmd = ffmpeg_cmd ffmpeg in_path out_path
              in case subprocess_run env cmd fs1 of
                   Inl e \<Rightarrow> ([WriteBytes in_path, Run cmd], fs1, Inl e)
                 | Inr (proc, fs2) \<Rightarrow>
                     if returncode proc \<noteq> 0 \<or> \<not> path_exists fs2 out_path
                     then ([WriteBytes in_path, Run cmd], fs2,
                           Inl (Exn RuntimeError
                             (ascii ''FFmpeg failed: '' @ take 500 (decode_ignore env (stderr proc)))))
                     else ([WriteBytes in_path, Run cmd, ReadBytes out_path], fs2,
                           read_bytes fs2 out_path)))"

text \<open>
  \<^verbatim>\<open>video_to_sticker_webm\<close>: the operations on the file system in order, the file system
  afterwards, and the exception or the bytes of the sticker.
\<close>

definition video_to_sticker_webm ::
  "video_env \<Rightarrow> pystr \<Rightarrow> fs_state \<Rightarrow> bytes \<Rightarrow> fs_op list \<times> fs_state \<times> (py_exn + bytes)" where
  "video_to_sticker_webm env ffmpeg fs src_bytes =
     (case ensure_ffmpeg (which env ffmpeg \<noteq> None) of
        Inl e \<Rightarrow> ([], fs, Inl e)
      | Inr u \<Rightarrow>
          (case mkdtemp env fs of
             Inl e \<Rightarrow> ([], fs, Inl e)
           | Inr td \<Rightarrow>
               (case transcode_in env ffmpeg td (fs\<lparr>dirs := td # dirs fs\<rparr>) src_bytes of
                  (ops, fs', r) \<Rightarrow> ([Mkdtemp td] @ ops @ [Rmtree td], rmtree td fs', r))))"

text \<open>
  The transcoder options that the argument list spells, as a structure, and the text
  each one is written as on the command line.
\<close>

datatype scale_expr = Num int | InW | Min scale_expr scale_expr

datatype aspect_mode = Decrease | Increase

datatype vfilter = Scale scale_expr scale_expr aspect_mode | Fps nat

datatype ff_option =
    Overwrite
  | Input pystr
  | NoAudio
  | Duration nat
  | VideoFilters "vfilter list"
  | VideoCodec pystr
  | VideoBitrate pystr
  | Crf nat
  | Deadline pystr
  | Output pystr

fun render_expr :: "scale_expr \<Rightarrow> pystr" where
  "render_expr (Num n) = str_int n"
| "render_expr InW = ascii ''iw''"
| "render_expr (Min a b) = ascii ''min('' @ render_expr a @ ascii '','' @ render_expr b @ ascii '')''"

definition quote_arg :: "pystr \<Rightarrow> pystr" where
  "quote_arg s = (if 44 \<in> set s then ascii [CHR 0x27] @ s @ ascii [CHR 0x27] else s)"

fun render_filter :: "vfilter \<Rightarrow> pystr" where
  "render_filter (Scale w h m) =
     ascii ''scale='' @ quote_arg (render_expr w) @ ascii '':'' @ quote_arg (render_expr h) @
     ascii '':force_original_aspect_ratio='' @
     (case m of Decrease \<Rightarrow> ascii ''decrease'' | Increase \<Rightarrow> ascii ''increase'')"
| "render_filter (Fps n) = ascii ''fps='' @ str_nat n"

fun join_comma :: "pystr list \<Rightarrow> pystr" where
  "join_comma [] = []"
| "join_comma [s] = s"
| "join_comma (s # t # ss) = s @ ascii '','' @ join_comma (t # ss)"

fun render_option :: "ff_option \<Rightarrow> pystr list" where
  "render_option Overwrite = [ascii ''-y'']"
| "render_option (Input p) = [ascii ''-i'', p]"
| "render_option NoAudio = [ascii ''-an'']"
| "render_option (Duration n) = [ascii ''-t'', str_nat n]"
| "render_option (VideoFilters fs) = [ascii ''-vf'', join_comma (map render_filter fs)]"
| "render_option (VideoCodec c) = [ascii ''-c:v'', c]"
| "render_option (VideoBitrate b) = [ascii ''-b:v'', b]"
| "render_option (Crf n) = [ascii ''-crf'', str_nat n]"
| "render_option (Deadline d) = [ascii ''-deadline'', d]"
| "render_option (Output p) = [p]"

definition sticker_options :: "pystr \<Rightarrow> pystr \<Rightarrow> ff_option list" where
  "sticker_options in_path out_path =
     [Overwrite, Input in_path, NoAudio, Duration 3,
      VideoFilters [Scale (Min (Num 512) InW) (Num (- 2)) Decrease, Fps 30],
      VideoCodec (ascii ''libvpx-vp9''), VideoBitrate (ascii ''420k''), Crf 32,
      Deadline (ascii ''realtime''), Output out_path]"

text \<open>
  What the transcoder does with these options, following its documentation. A stream
  has a frame size, a duration in milliseconds, a frame rate and possibly an audio
  track. \<^verbatim>\<open>-an\<close> drops the audio, \<^verbatim>\<open>-t n\<close> stops the output after \<open>n\<close> seconds, the
  \<^verbatim>\<open>fps\<close> filter sets the frame rate. The \<^verbatim>\<open>scale\<close> filter evaluates its width and
  height expressions (\<^verbatim>\<open>iw\<close> is the input width); a negative value \<open>- n\<close> for one of
  them stands for the value that keeps the aspect ratio of the input for the other one,
  made divisible by \<open>n\<close>; \<^verbatim>\<open>force_original_aspect_ratio=decrease\<close> then lowers the width
  or the height where needed to keep the aspect ratio inside the computed box.
  \<open>av_rescale a b c\<close> is \<open>a * b / c\<close> rounded to the nearest integer.
\<close>

record stream =
  width :: int
  height :: int
  duration_ms :: nat
  frame_rate :: nat
  has_audio :: bool

fun eval_expr :: "int \<Rightarrow> scale_expr \<Rightarrow> int" where
  "eval_expr iw (Num n) = n"
| "eval_expr iw InW = iw"
| "eval_expr iw (Min a b) = min (eval_expr iw a) (eval_expr iw b)"

definition av_rescale :: "int \<Rightarrow> int \<Rightarrow> int \<Rightarrow> int" where
  "av_rescale a b c = (a * b + c div 2) div c"

text \<open>
  The size the \<^verbatim>\<open>scale\<close> filter gives, from the values \<open>w0\<close> and \<open>h0\<close> of its two
  expressions, in the steps of the transcoder: the divisibility factors; the input size
  when both values are negative; the width from the height, or the height from the
  width, when one is negative; the adjustment to the aspect ratio of the input.
\<close>

definition divisor :: "int \<Rightarrow> int" where
  "divisor x = (if x < - 1 then - x else 1)"

definition force_aspect :: "aspect_mode \<Rightarrow> int \<times> int \<Rightarrow> int \<Rightarrow> int \<Rightarrow> int \<times> int" where
  "force_aspect m size_in w h =
     (case m of
        Decrease \<Rightarrow> (min (av_rescale h (fst size_in) (snd size_in)) w,
                     min (av_rescale w (snd size_in) (fst size_in)) h)
      | Increase \<Rightarrow> (max (av_rescale h (fst size_in) (snd size_in)) w,
                     max (av_rescale w (snd size_in) (fst size_in)) h))"

definition derive_height :: "aspect_mode \<Rightarrow> int \<times> int \<Rightarrow> int \<Rightarrow> int \<Rightarrow> int \<Rightarrow> int \<times> int" where
  "derive_height m size_in factor_h w h =
     force_aspect m size_in w
       (if h < 0 then av_rescale w (snd size_in) (fst size_in * factor_h) * factor_h else h)"

definition derive_width ::
  "aspect_mode \<Rightarrow> int \<times> int \<Rightarrow> int \<Rightarrow> int \<Rightarrow> int \<Rightarrow> int \<Rightarrow> int \<times> int" where
  "derive_width m size_in factor_w factor_h w h =
     derive_height m size_in factor_h
       (if w < 0 then av_rescale h (fst size_in) (snd size_in * factor_w) * factor_w else w) h"

definition scale_values :: "aspect_mode \<Rightarrow> int \<times> int \<Rightarrow> int \<Rightarrow> int \<Rightarrow> int \<times> int" where
  "scale_values m size_in w0 h0 =
     derive_width m size_in (divisor w0) (divisor h0)
       (if w0 < 0 \<and> h0 < 0 then fst size_in else w0)
       (if w0 < 0 \<and> h0 < 0 then snd size_in else h0)"

definition scale_size :: "scale_expr \<Rightarrow> scale_expr \<Rightarrow> aspect_mode \<Rightarrow> int \<times> int \<Rightarrow> int \<times> int" where
  "scale_size we he m size_in =
     scale_values m size_in (eval_expr (fst size_in) we) (eval_expr (fst size_in) he)"

fun apply_filter :: "vfilter \<Rightarrow> stream \<Rightarrow> stream" where
  "apply_filter (Scale we he m) v =
     v\<lparr>width := fst (scale_size we he m (width v, height v)),
       height := snd (scale_size we he m (width v, height v))\<rparr>"
| "apply_filter (Fps n) v = v\<lparr>frame_rate := n\<rparr>"

fun apply_option :: "ff_option \<Rightarrow> stream \<Rightarrow> stream" where
  "apply_option NoAudio v = v\<lparr>has_audio := False\<rparr>"
| "apply_option (Duration n) v = v\<lparr>duration_ms := min (duration_ms v) (n * 1000)\<rparr>"
| "apply_option (VideoFilters fs) v = fold apply_filter fs v"
| "apply_option opt v = v"

definition transcoded :: "ff_option list \<Rightarrow> stream \<Rightarrow> stream" where
  "transcoded opts v = fold apply_option opts v"


section \<open>Concrete inputs\<close>

text \<open>Inputs on which the functions above are run in the examples below.\<close>

definition test_user :: tg_user where
  "test_user = \<lparr>user_id = 42, username = Some (ascii ''My.Bot!''), first_name = None\<rparr>"

definition test_download_env :: download_env where
  "test_download_env =
     \<lparr>get_file = (\<lambda>fid. Inr \<lparr>file_id = fid, file_path = Some (ascii ''documents/file_1.PNG'')\<rparr>),
      download_as_bytearray = (\<lambda>file. Inr [137, 80, 78, 71]),
      path_suffix = (\<lambda>p. drop (length p - 4) p),
      str_lower = lower_ascii\<rparr>"

definition text_message :: message where
  "text_message =
     \<lparr>photo = [], animation = None, video = None, document = None,
      caption = Some (ascii ''hello'')\<rparr>"

text \<open>
  An environment of the video converter: the transcoder is installed or not, and a run
  of it writes its output file and ends with the given exit status.
\<close>

definition test_video_env :: "bool \<Rightarrow> int \<Rightarrow> video_env" where
  "test_video_env installed status =
     \<lparr>which = (\<lambda>n. if installed then Some (ascii ''/usr/bin/ffmpeg'') else None),
      mkdtemp = (\<lambda>fs. Inr (ascii ''/tmp/tmpq1'')),
      write_error = (\<lambda>fs p. None),
      subprocess_run = (\<lambda>cmd fs.
        Inr (\<lparr>returncode = status, stderr = ascii ''log''\<rparr>,
             fs\<lparr>files := (last cmd, [26, 69, 223, 163]) # files fs\<rparr>)),
      decode_ignore = (\<lambda>b. b)\<rparr>"

definition no_media :: "message \<Rightarrow> bool" where
  "no_media msg \<longleftrightarrow>
     photo msg = [] \<and> animation msg = None \<and> video msg = None \<and> document msg = None"



section \<open>Properties of the name derivation\<close>

lemmas name_defs = set_name_of_def or_str_def STATIC_SUFFIX_def VIDEO_SUFFIX_def
  sanitize_username_def ascii_def lower_ascii_def re_sub_nonword_def word_char_def lower_char_def

lemma re_sub_nonword_ascii: "list_all word_char (re_sub_nonword s)"
  by (induction s) (simp_all add: re_sub_nonword_def word_char_def)

lemma sanitize_chars_spec: "lower_ascii (re_sub_nonword s) = spec_token_chars s"
  by (induction s) (auto simp: lower_ascii_def re_sub_nonword_def lower_char_def word_char_def)

text \<open>
  Claim C5. For every owner (handle, id), bot handle and kind, the name computed by
  \<^verbatim>\<open>get_or_create_set\<close> is the owner token of the specification (characters outside
  \<^verbatim>\<open>[A-Za-z0-9_]\<close> replaced by an underscore, lower-cased; \<^verbatim>\<open>user<ownerId>\<close> for an
  empty or missing handle), then the kind suffix, then \<^verbatim>\<open>_by_<botHandle>\<close>; the token is
  what \<^verbatim>\<open>sanitize_username\<close> returns; \<^verbatim>\<open>sanitize_username("My.Bot!", 42)\<close> is
  \<^verbatim>\<open>my_bot_\<close>, and the static name for the bot \<^verbatim>\<open>StickBot\<close> is
  \<^verbatim>\<open>my_bot__static_by_StickBot\<close>.
\<close>

theorem resolved_name_as_specified:
  "set_name_of user bh k =
     spec_owner_token (or_str (username user) []) (user_id user) @ spec_kind_suffix k @
     ascii ''_by_'' @ bh
   \<and> sanitize_username h i = spec_owner_token h i
   \<and> sanitize_username (ascii ''My.Bot!'') 42 = ascii ''my_bot_''
   \<and> set_name_of \<lparr>user_id = 42, username = Some (ascii ''My.Bot!''), first_name = None\<rparr>
        (ascii ''StickBot'') Static = ascii ''my_bot__static_by_StickBot''"
proof (intro conjI)
  show "sanitize_username h i = spec_owner_token h i"
    by (simp add: sanitize_username_def spec_owner_token_def sanitize_chars_spec)
  show "set_name_of user bh k =
     spec_owner_token (or_str (username user) []) (user_id user) @ spec_kind_suffix k @
     ascii ''_by_'' @ bh"
    by (cases k) (simp_all add: set_name_of_def spec_owner_token_def spec_kind_suffix_def
        sanitize_username_def sanitize_chars_spec STATIC_SUFFIX_def VIDEO_SUFFIX_def)
  show "sanitize_username (ascii ''My.Bot!'') 42 = ascii ''my_bot_''"
    by (simp add: name_defs)
  show "set_name_of \<lparr>user_id = 42, username = Some (ascii ''My.Bot!''), first_name = None\<rparr>
        (ascii ''StickBot'') Static = ascii ''my_bot__static_by_StickBot''"
    by (simp add: name_defs)
qed

lemma sanitize_username_no_handle: "sanitize_username [] 42 = ascii ''user42''"
  by (simp add: sanitize_username_def ascii_def str_int_def str_nat.simps)


section \<open>Properties of the tag rule\<close>

lemma strip_hd: "strip c \<noteq> [] \<Longrightarrow> \<not> py_isspace (hd (strip c))"
  unfolding strip_def lstrip_def rstrip_def
  by (metis Nil_is_rev_conv dropWhile.simps(1) dropWhile_eq_Nil_conv
    dropWhile_last hd_dropWhile last_rev rev_rev_ident)

lemma strip_last: "strip c \<noteq> [] \<Longrightarrow> \<not> py_isspace (last (strip c))"
  unfolding strip_def lstrip_def rstrip_def
  by (simp add: hd_dropWhile last_rev)

lemma strip_ws: "list_all py_isspace c \<Longrightarrow> strip c = []"
proof -
  assume "list_all py_isspace c"
  then have d: "dropWhile py_isspace c = []"
    by (induction c) simp_all
  show ?thesis
    by (simp only: strip_def lstrip_def rstrip_def d rev.simps dropWhile.simps)
qed

lemma strip_padded: "c \<noteq> [] \<Longrightarrow> py_isspace (hd c) \<or> py_isspace (last c) \<Longrightarrow> strip c \<noteq> c"
  using strip_hd [of c] strip_last [of c] by auto

lemma bound_tags_eq:
  "bound_tags cap =
     (if strip (or_str cap []) \<noteq> [] \<and> length (strip (or_str cap [])) \<le> 10
      then [strip (or_str cap [])] else [DEFAULT_EMOJI])"
  by (simp add: bound_tags_def emoji_list_of_def choose_emoji_def or_str_def DEFAULT_EMOJI_def Let_def)

text \<open>
  Claim C8, as stated, fails: the caption \<^verbatim>\<open>" a "\<close> is non-empty and has 3 characters,
  and the tag bound to the sticker is \<^verbatim>\<open>"a"\<close>, not the caption verbatim.
\<close>

theorem padded_caption_not_verbatim:
  "ascii '' a '' \<noteq> [] \<and> length (ascii '' a '') \<le> 10 \<and>
   bound_tags (Some (ascii '' a '')) \<noteq> [ascii '' a '']"
  by (simp add: bound_tags_eq or_str_def strip_def lstrip_def rstrip_def py_isspace_def ascii_def)

text \<open>
  Claim C8, amended. For every inbound message whose caption is absent or has no leading
  or trailing whitespace (stripping leaves it unchanged), the tag bound to the sticker is
  the default tag when the caption is absent, empty or longer than 10 characters, and the
  caption verbatim when it is non-empty and at most 10 characters.
\<close>

theorem tag_rule_unpadded:
  "bound_tags None = [DEFAULT_EMOJI] \<and>
   (strip c = c \<longrightarrow>
      bound_tags (Some c) = (if c = [] \<or> 10 < length c then [DEFAULT_EMOJI] else [c]))"
  by (auto simp: bound_tags_eq or_str_def strip_def lstrip_def rstrip_def)

theorem tag_rule_unpadded_witness:
  "strip [128512] = [128512] \<and> bound_tags (Some [128512]) = [[128512]]"
proof -
  have h: "strip [128512] = [128512]"
    by (simp add: strip_def lstrip_def rstrip_def py_isspace_def)
  show ?thesis using h tag_rule_unpadded [of "[128512]"] by simp
qed

text \<open>
  Claim C10. The caption is stripped of whitespace before the tag rule is applied: a
  caption of whitespace only yields the default tag; the limit of 10 characters is tested
  on the stripped caption; when the stripped caption is the tag it neither starts nor ends
  with whitespace; and a caption that starts or ends with whitespace is never the tag as
  it was sent.
\<close>

theorem caption_trimmed_before_tag_rule:
  "(list_all py_isspace w \<longrightarrow> bound_tags (Some w) = [DEFAULT_EMOJI])
   \<and> bound_tags (Some c) =
       (if strip c = [] \<or> 10 < length (strip c) then [DEFAULT_EMOJI] else [strip c])
   \<and> (strip c \<noteq> [] \<and> length (strip c) \<le> 10 \<longrightarrow>
        bound_tags (Some c) = [strip c] \<and>
        \<not> py_isspace (hd (strip c)) \<and> \<not> py_isspace (last (strip c)))
   \<and> (c \<noteq> [] \<and> (py_isspace (hd c) \<or> py_isspace (last c)) \<longrightarrow> bound_tags (Some c) \<noteq> [c])"
proof (intro conjI impI)
  show "bound_tags (Some w) = [DEFAULT_EMOJI]" if "list_all py_isspace w"
    using strip_ws [OF that] by (cases w) (simp_all add: bound_tags_eq or_str_def)
  have os: "strip (or_str (Some c) []) = strip c"
    by (cases c) (simp_all add: or_str_def)
  show eq: "bound_tags (Some c) =
       (if strip c = [] \<or> 10 < length (strip c) then [DEFAULT_EMOJI] else [strip c])"
    by (auto simp: bound_tags_eq os)
  show "bound_tags (Some c) = [strip c]" if "strip c \<noteq> [] \<and> length (strip c) \<le> 10"
    using that eq by auto
  show "\<not> py_isspace (hd (strip c))" if "strip c \<noteq> [] \<and> length (strip c) \<le> 10"
    using that strip_hd by blast
  show "\<not> py_isspace (last (strip c))" if "strip c \<noteq> [] \<and> length (strip c) \<le> 10"
    using that strip_last by blast
  show "bound_tags (Some c) \<noteq> [c]"
    if p: "c \<noteq> [] \<and> (py_isspace (hd c) \<or> py_isspace (last c))"
  proof
    assume b: "bound_tags (Some c) = [c]"
    from p have ne: "strip c \<noteq> c" using strip_padded by blast
    with b eq have "c = DEFAULT_EMOJI" by (auto split: if_splits)
    with p show False by (simp add: DEFAULT_EMOJI_def py_isspace_def)
  qed
qed

theorem caption_trimmed_before_tag_rule_witness:
  "list_all py_isspace (ascii ''   '') \<and> bound_tags (Some (ascii ''   '')) = [DEFAULT_EMOJI]
   \<and> strip (ascii '' ab  '') = ascii ''ab''
   \<and> bound_tags (Some (ascii '' ab  '')) = [ascii ''ab'']
   \<and> py_isspace (hd (ascii '' ab  ''))
   \<and> bound_tags (Some (ascii '' ab  '')) \<noteq> [ascii '' ab  '']
   \<and> length (ascii ''  abcdefgh  '') = 12
   \<and> bound_tags (Some (ascii ''  abcdefgh  '')) = [ascii ''abcdefgh'']"
proof -
  have w: "list_all py_isspace (ascii ''   '')"
    by (simp add: ascii_def py_isspace_def)
  have s: "strip (ascii '' ab  '') = ascii ''ab''"
    by (simp add: strip_def lstrip_def rstrip_def py_isspace_def ascii_def)
  have s2: "strip (ascii ''  abcdefgh  '') = ascii ''abcdefgh''"
    by (simp add: strip_def lstrip_def rstrip_def py_isspace_def ascii_def)
  have p: "py_isspace (hd (ascii '' ab  ''))"
    by (simp add: py_isspace_def ascii_def)
  have l: "length (ascii ''  abcdefgh  '') = 12"
    by (simp add: ascii_def)
  from caption_trimmed_before_tag_rule [of "ascii ''   ''" "ascii '' ab  ''"] w s p
  have a: "bound_tags (Some (ascii ''   '')) = [DEFAULT_EMOJI]"
    and b: "bound_tags (Some (ascii '' ab  '')) = [ascii ''ab'']"
    and c: "bound_tags (Some (ascii '' ab  '')) \<noteq> [ascii '' ab  '']"
    by (simp_all add: ascii_def)
  from caption_trimmed_before_tag_rule [of "[]" "ascii ''  abcdefgh  ''"] s2
  have d: "bound_tags (Some (ascii ''  abcdefgh  '')) = [ascii ''abcdefgh'']"
    by (simp add: ascii_def)
  from w s p l a b c d show ?thesis by blast
qed


section \<open>Properties of the media retrieval\<close>

lemma download_photo:
  "tg_download_to_bytes test_download_env
     (Some (text_message\<lparr>photo := [ascii ''small'', ascii ''large'']\<rparr>)) =
     Inr ([137, 80, 78, 71], ascii ''.jpg'')"
  by (simp add: tg_download_to_bytes_def fetch_def test_download_env_def text_message_def)

lemma download_document:
  "tg_download_to_bytes test_download_env
     (Some (text_message\<lparr>document := Some (ascii ''doc'')\<rparr>)) =
     Inr ([137, 80, 78, 71], ascii ''.png'')"
  by (simp add: tg_download_to_bytes_def fetch_def suffix_lower_def test_download_env_def
      text_message_def lower_ascii_def lower_char_def ascii_def)


section \<open>Properties of the sticker set management\<close>

lemma str_nat_0: "str_nat 0 = [48]"
  by (simp add: str_nat.simps)

lemma test_names:
  "set_name_of test_user (ascii ''StickBot'') Static = ascii ''my_bot__static_by_StickBot''"
  by (simp add: test_user_def name_defs)

lemmas registry_defs = get_or_create_set_def remove_placeholder_def placeholder_args_def
  registry_api_def new_ids_def str_nat_0 test_names Let_def

text \<open>
  The first request of a user on the registry platform: the set is absent, it is
  created with the placeholder, and the placeholder is deleted.
\<close>

lemma registry_first_call:
  "get_or_create_set (registry_api (ascii ''StickBot'')) [] test_user Static =
     ([GetMe, GetStickerSet (ascii ''my_bot__static_by_StickBot''),
       CreateNewStickerSet (placeholder_args (registry_api (ascii ''StickBot'')) test_user
          (ascii ''my_bot__static_by_StickBot'') (set_title_of test_user Static) Static),
       GetStickerSet (ascii ''my_bot__static_by_StickBot''),
       DeleteStickerFromSet (ascii ''my_bot__static_by_StickBot#0'')],
      [(ascii ''my_bot__static_by_StickBot'', [])],
      Inr (ascii ''my_bot__static_by_StickBot'', set_title_of test_user Static))"
  by (simp add: registry_defs) (simp add: ascii_def)

text \<open>
  On the registry platform the provisioning is idempotent without further conditions:
  every call returns the name and the title, and a call that follows it is a lookup.
\<close>

lemma registry_get_me: "get_me (registry_api b) p = Inr b"
  by (simp add: registry_api_def)

lemma registry_lookup:
  "get_sticker_set (registry_api b) p n =
     (case map_of p n of
        None \<Rightarrow> Inl (Exn LibraryError (ascii ''Stickerset_invalid''))
      | Some ids \<Rightarrow> Inr \<lparr>stickers = ids\<rparr>)"
  by (simp add: registry_api_def)

lemma registry_create:
  "map_of p (arg_name a) = None \<Longrightarrow>
   create_new_sticker_set (registry_api b) p a =
     Inr ((arg_name a, new_ids (arg_name a) 0 (length (arg_stickers a))) # p)"
  by (simp add: registry_api_def)

lemma registry_delete:
  "delete_sticker_from_set (registry_api b) p fid =
     Inr (map (\<lambda>(n, ids). (n, removeAll fid ids)) p)"
  by (simp add: registry_api_def)

lemma registry_lookup_after_delete:
  "map_of (map (\<lambda>(n, ids). (n, removeAll fid ids)) p) n = map_option (removeAll fid) (map_of p n)"
  by (induction p) auto

lemma registry_second_call:
  assumes "map_of p (set_name_of user b k) = Some ids"
  shows "get_or_create_set (registry_api b) p user k =
           ([GetMe, GetStickerSet (set_name_of user b k)], p,
            Inr (set_name_of user b k, set_title_of user k))"
  using assms by (simp add: get_or_create_set_def registry_get_me registry_lookup Let_def)

lemma registry_creating_call:
  assumes "map_of p (set_name_of user b k) = None"
  shows "snd (get_or_create_set (registry_api b) p user k) =
           (map (\<lambda>(n, ids). (n, removeAll (set_name_of user b k @ ascii ''#'' @ str_nat 0) ids))
              ((set_name_of user b k, [set_name_of user b k @ ascii ''#'' @ str_nat 0]) # p),
            Inr (set_name_of user b k, set_title_of user k))"
proof -
  let ?n = "set_name_of user b k"
  let ?a = "placeholder_args (registry_api b) user ?n (set_title_of user k) k"
  let ?p1 = "(?n, [?n @ ascii ''#'' @ str_nat 0]) # p"
  have a: "arg_name ?a = ?n" "length (arg_stickers ?a) = 1"
    by (simp_all add: placeholder_args_def)
  have cr: "create_new_sticker_set (registry_api b) p ?a = Inr ?p1"
    using registry_create [of p ?a b] assms a by (simp add: new_ids_def)
  have rp: "remove_placeholder (registry_api b) ?p1 ?n =
      ([GetStickerSet ?n, DeleteStickerFromSet (?n @ ascii ''#'' @ str_nat 0)],
       map (\<lambda>(n, ids). (n, removeAll (?n @ ascii ''#'' @ str_nat 0) ids)) ?p1)"
    by (simp add: remove_placeholder_def registry_lookup registry_delete)
  show ?thesis
    using assms cr rp
    by (simp add: get_or_create_set_def registry_get_me registry_lookup Let_def)
qed

lemma registry_ensure_idempotent:
  assumes "get_or_create_set (registry_api b) p user k = (calls1, p1, r1)"
  shows "r1 = Inr (set_name_of user b k, set_title_of user k) \<and>
         get_or_create_set (registry_api b) p1 user k =
           ([GetMe, GetStickerSet (set_name_of user b k)], p1, r1)"
proof (cases "map_of p (set_name_of user b k)")
  case (Some ids)
  with assms registry_second_call [OF Some] show ?thesis by simp
next
  case None
  let ?n = "set_name_of user b k"
  from registry_creating_call [OF None] assms
  have r1: "r1 = Inr (?n, set_title_of user k)"
    and p1: "p1 = map (\<lambda>(n, ids). (n, removeAll (?n @ ascii ''#'' @ str_nat 0) ids))
              ((?n, [?n @ ascii ''#'' @ str_nat 0]) # p)"
    by simp_all
  have "map_of p1 ?n = Some []"
    unfolding p1 by (simp add: registry_lookup_after_delete)
  from registry_second_call [OF this] r1 show ?thesis by simp
qed

text \<open>
  Claim C3. When a call of \<^verbatim>\<open>get_or_create_set\<close> has returned a name and a title,
  and afterwards the bot has the same identity and the lookup of that name finds the
  set (the collection exists), a second call for the same user and kind returns the
  same name and title, makes the two read-only calls \<^verbatim>\<open>get_me\<close> and
  \<^verbatim>\<open>get_sticker_set\<close> only, and leaves the platform as it was; the two calls together
  contain at most one creation.
\<close>

theorem ensure_twice:
  assumes first: "get_or_create_set api p user k = (calls1, p1, Inr (n1, t1))"
    and same_bot: "get_me api p1 = get_me api p"
    and found: "get_sticker_set api p1 n1 = Inr s"
  shows "get_or_create_set api p1 user k = ([GetMe, GetStickerSet n1], p1, Inr (n1, t1))
         \<and> length (filter is_creation (calls1 @ fst (get_or_create_set api p1 user k))) \<le> 1
         \<and> filter is_mutation (fst (get_or_create_set api p1 user k)) = []"
proof -
  from first obtain b where b: "get_me api p = Inr b"
    by (auto simp: get_or_create_set_def split: sum.splits)
  from first b have n1: "n1 = set_name_of user b k" and t1: "t1 = set_title_of user k"
    by (auto simp: get_or_create_set_def Let_def split: sum.splits prod.splits)
  have second: "get_or_create_set api p1 user k = ([GetMe, GetStickerSet n1], p1, Inr (n1, t1))"
    using b same_bot found n1 t1 by (simp add: get_or_create_set_def Let_def)
  have rp: "filter is_creation (fst (remove_placeholder api q n)) = []" for q n
    by (auto simp: remove_placeholder_def is_creation_def split: sum.splits)
  from first b have "length (filter is_creation calls1) \<le> 1"
    using rp
    apply (auto simp: get_or_create_set_def Let_def is_creation_def split: sum.splits prod.splits)
    by (metis fst_conv list.size(3) rp)
  then show ?thesis
    using second by (simp add: is_creation_def is_mutation_def)
qed

text \<open>
  The theorem for C3 on the registry platform, from the empty registry: the first
  call creates the set, the second one is a lookup.
\<close>

theorem ensure_twice_witness:
  "snd (get_or_create_set (registry_api (ascii ''StickBot'')) [] test_user Static) =
     ([(ascii ''my_bot__static_by_StickBot'', [])],
      Inr (ascii ''my_bot__static_by_StickBot'', set_title_of test_user Static))
   \<and> get_or_create_set (registry_api (ascii ''StickBot''))
        [(ascii ''my_bot__static_by_StickBot'', [])] test_user Static =
       ([GetMe, GetStickerSet (ascii ''my_bot__static_by_StickBot'')],
        [(ascii ''my_bot__static_by_StickBot'', [])],
        Inr (ascii ''my_bot__static_by_StickBot'', set_title_of test_user Static))"
proof -
  have same: "get_me (registry_api (ascii ''StickBot'')) [(ascii ''my_bot__static_by_StickBot'', [])] =
      get_me (registry_api (ascii ''StickBot'')) []"
    by (simp add: registry_api_def)
  have found: "get_sticker_set (registry_api (ascii ''StickBot''))
      [(ascii ''my_bot__static_by_StickBot'', [])] (ascii ''my_bot__static_by_StickBot'') =
      Inr \<lparr>stickers = []\<rparr>"
    by (simp add: registry_api_def)
  show ?thesis
    using ensure_twice [OF registry_first_call same found] registry_first_call by simp
qed

text \<open>
  Claim C4, as stated, fails: for the caller that loses the race the lookup does not
  find the set and the creation is refused because the name is taken; the exception of
  the creation leaves \<^verbatim>\<open>get_or_create_set\<close>, and no name is returned.
\<close>

theorem create_conflict_is_surfaced:
  "get_sticker_set (lost_race_api (ascii ''StickBot'')) ()
      (set_name_of test_user (ascii ''StickBot'') Static) =
     Inl (Exn LibraryError (ascii ''Stickerset_invalid''))
   \<and> snd (snd (get_or_create_set (lost_race_api (ascii ''StickBot'')) () test_user Static)) =
       Inl (Exn LibraryError (ascii ''Sticker set name is already occupied''))
   \<and> snd (snd (get_or_create_set (lost_race_api (ascii ''StickBot'')) () test_user Static)) \<noteq>
       Inr (set_name_of test_user (ascii ''StickBot'') Static, set_title_of test_user Static)"
  by (simp add: get_or_create_set_def lost_race_api_def Let_def)

text \<open>
  Claim C4, amended. When the lookup fails and the creation call fails, for whatever
  reason (a name that is already taken included), \<^verbatim>\<open>get_or_create_set\<close> makes no
  further call, leaves the platform as it was, and the exception of the creation call
  reaches its caller: no name is returned.
\<close>

theorem create_failure_propagates:
  assumes "get_me api p = Inr b" and "get_sticker_set api p (set_name_of user b k) = Inl e0"
    and "create_new_sticker_set api p
           (placeholder_args api user (set_name_of user b k) (set_title_of user k) k) = Inl e"
  shows "get_or_create_set api p user k =
           ([GetMe, GetStickerSet (set_name_of user b k),
             CreateNewStickerSet (placeholder_args api user (set_name_of user b k) (set_title_of user k) k)],
            p, Inl e)"
  using assms by (simp add: get_or_create_set_def Let_def)

text \<open>
  The amended C4 on the platform of the caller that loses the race.
\<close>

theorem create_failure_propagates_witness:
  "get_or_create_set (lost_race_api (ascii ''StickBot'')) () test_user Static =
     ([GetMe, GetStickerSet (set_name_of test_user (ascii ''StickBot'') Static),
       CreateNewStickerSet (placeholder_args (lost_race_api (ascii ''StickBot'')) test_user
          (set_name_of test_user (ascii ''StickBot'') Static) (set_title_of test_user Static) Static)],
      (), Inl (Exn LibraryError (ascii ''Sticker set name is already occupied'')))"
proof -
  have me: "get_me (lost_race_api (ascii ''StickBot'')) () = Inr (ascii ''StickBot'')"
    by (simp add: lost_race_api_def)
  have nf: "get_sticker_set (lost_race_api (ascii ''StickBot'')) ()
        (set_name_of test_user (ascii ''StickBot'') Static) =
       Inl (Exn LibraryError (ascii ''Stickerset_invalid''))"
    by (simp add: lost_race_api_def)
  have cr: "create_new_sticker_set (lost_race_api (ascii ''StickBot'')) ()
      (placeholder_args (lost_race_api (ascii ''StickBot'')) test_user
          (set_name_of test_user (ascii ''StickBot'') Static) (set_title_of test_user Static) Static) =
      Inl (Exn LibraryError (ascii ''Sticker set name is already occupied''))"
    by (simp add: lost_race_api_def)
  show ?thesis
    by (rule create_failure_propagates [OF me nf cr])
qed

text \<open>
  Claim C6. Whatever exception the lookup of the set raises, \<^verbatim>\<open>get_or_create_set\<close>
  goes on to the creation: its third call is the creation of the set with the
  placeholder, and its outcome is decided by the creation alone: the exception of the
  creation when that fails, the name and the title when it succeeds. The exception of
  the lookup is not part of the outcome.
\<close>

theorem lookup_failure_leads_to_creation:
  assumes "get_me api p = Inr b" and "get_sticker_set api p (set_name_of user b k) = Inl e"
  shows "take 3 (fst (get_or_create_set api p user k)) =
           [GetMe, GetStickerSet (set_name_of user b k),
            CreateNewStickerSet (placeholder_args api user (set_name_of user b k) (set_title_of user k) k)]
         \<and> snd (snd (get_or_create_set api p user k)) =
           (case create_new_sticker_set api p
                   (placeholder_args api user (set_name_of user b k) (set_title_of user k) k) of
              Inl e' \<Rightarrow> Inl e'
            | Inr p1 \<Rightarrow> Inr (set_name_of user b k, set_title_of user k))"
  using assms
  by (auto simp: get_or_create_set_def Let_def split: sum.splits prod.splits)

text \<open>
  The theorem for C6 on the registry platform, where the lookup of an absent set
  raises.
\<close>

theorem lookup_failure_leads_to_creation_witness:
  "get_me (registry_api (ascii ''StickBot'')) [] = Inr (ascii ''StickBot'')
   \<and> get_sticker_set (registry_api (ascii ''StickBot'')) []
        (set_name_of test_user (ascii ''StickBot'') Static) =
       Inl (Exn LibraryError (ascii ''Stickerset_invalid''))
   \<and> snd (snd (get_or_create_set (registry_api (ascii ''StickBot'')) [] test_user Static)) =
       Inr (set_name_of test_user (ascii ''StickBot'') Static, set_title_of test_user Static)"
proof -
  have me: "get_me (registry_api (ascii ''StickBot'')) [] = Inr (ascii ''StickBot'')"
    by (simp add: registry_api_def)
  have nf: "get_sticker_set (registry_api (ascii ''StickBot'')) []
        (set_name_of test_user (ascii ''StickBot'') Static) =
       Inl (Exn LibraryError (ascii ''Stickerset_invalid''))"
    by (simp add: registry_api_def)
  have cr: "create_new_sticker_set (registry_api (ascii ''StickBot'')) [] a =
      Inr [(arg_name a, new_ids (arg_name a) 0 (length (arg_stickers a)))]" for a
    by (simp add: registry_api_def)
  show ?thesis
    using lookup_failure_leads_to_creation [OF me nf] me nf by (simp add: cr)
qed


section \<open>Properties of the image conversion\<close>

lemmas float_defs = image_to_sticker_webp_size_def resized_def resize_to_def fl_div_def fl_mul_def fl_less_def
  float_of_int_def fl_ratio_def round_from_def fits_53_def round_at_def shifted_def
  round_half_even_def int_of_float_def bit_length.simps pow2.simps

text \<open>
  Claim C1 on the code: an image of 784 by 784 pixels has its longer edge above 512,
  and the saved image is 511 by 511: \<^verbatim>\<open>512.0 / 784\<close> is rounded down, the product
  \<^verbatim>\<open>784 * scale\<close> is the float just below 512, and \<^verbatim>\<open>int\<close> truncates it to 511.
  An image of 784 by 392 pixels is saved as 511 by 255.
\<close>

theorem long_edge_511:
  "image_to_sticker_webp_size (784, 784) = Inr (511, 511) \<and>
   image_to_sticker_webp_size (784, 392) = Inr (511, 255)"
  by (simp add: float_defs)

text \<open>
  The scenario of the specification, and images that are not enlarged.
\<close>

lemma scenario_1024_768: "image_to_sticker_webp_size (1024, 768) = Inr (512, 384)"
  by (simp add: float_defs)

lemma small_image_kept: "image_to_sticker_webp_size (400, 300) = Inr (400, 300)"
  by (simp add: float_defs)

lemma edge_512_kept: "image_to_sticker_webp_size (512, 512) = Inr (512, 512)"
  by (simp add: float_defs)

text \<open>
  An image more than 512 times as long as it is high gets the height 0, which the
  library's \<^verbatim>\<open>resize\<close> refuses.
\<close>

lemma thin_image_refused:
  "image_to_sticker_webp_size (10000, 1) =
     Inl (Exn ValueError (ascii ''height and width must be > 0''))"
  by (simp add: float_defs)


section \<open>Properties of the video conversion\<close>

text \<open>
  The argument list of the source is the transcoder path followed by the text of the
  structured options.
\<close>

lemma cmd_render: "ffmpeg_cmd ff i out = ff # concat (map render_option (sticker_options i out))"
  by (simp add: ffmpeg_cmd_def sticker_options_def vf_argument_def quote_arg_def str_int_def str_nat.simps ascii_def)

lemmas video_defs = transcoded_def sticker_options_def scale_size_def scale_values_def
  derive_width_def derive_height_def force_aspect_def divisor_def av_rescale_def

text \<open>
  Claim C2 on the code: the argument list is the rendering of the options, and for a
  portrait input of 512 by 1024 pixels these options give an output of 512 by 1024
  pixels, for 720 by 1280 pixels an output of 512 by 910 pixels: the longer dimension
  is above 512. The scale filter bounds the width only.
\<close>

theorem portrait_video_exceeds_512:
  "ffmpeg_cmd ff i out = ff # concat (map render_option (sticker_options i out)) \<and>
   transcoded (sticker_options i out)
     \<lparr>width = 512, height = 1024, duration_ms = 10000, frame_rate = 60, has_audio = True\<rparr> =
     \<lparr>width = 512, height = 1024, duration_ms = 3000, frame_rate = 30, has_audio = False\<rparr> \<and>
   transcoded (sticker_options i out)
     \<lparr>width = 720, height = 1280, duration_ms = 10000, frame_rate = 60, has_audio = True\<rparr> =
     \<lparr>width = 512, height = 910, duration_ms = 3000, frame_rate = 30, has_audio = False\<rparr>"
  by (simp add: cmd_render video_defs)

text \<open>
  What the options do guarantee: no audio, at most 3 seconds, 30 frames per second,
  and a width of at most 512 that is not above the width of the input.
\<close>

lemma force_aspect_decrease_width: "fst (force_aspect Decrease s w h) \<le> w"
  by (simp add: force_aspect_def)

lemma scale_width_bound:
  assumes "0 < iw"
  shows "fst (scale_size (Min (Num 512) InW) (Num (- 2)) Decrease (iw, ih)) \<le> min 512 iw"
proof -
  have "scale_size (Min (Num 512) InW) (Num (- 2)) Decrease (iw, ih) =
        force_aspect Decrease (iw, ih) (min 512 iw)
          (av_rescale (min 512 iw) ih (iw * 2) * 2)"
  proof -
    have nonneg: "\<not> min 512 iw < 0"
      using assms by simp
    show ?thesis
      by (simp add: scale_size_def scale_values_def derive_width_def derive_height_def
          divisor_def nonneg)
  qed
  then show ?thesis
    by (simp only: force_aspect_decrease_width)
qed

lemma transcoded_sticker_options:
  "transcoded (sticker_options i out) v =
     v\<lparr>has_audio := False, duration_ms := min (duration_ms v) 3000,
       width := fst (scale_size (Min (Num 512) InW) (Num (- 2)) Decrease (width v, height v)),
       height := snd (scale_size (Min (Num 512) InW) (Num (- 2)) Decrease (width v, height v)),
       frame_rate := 30\<rparr>"
  by (simp add: transcoded_def sticker_options_def)

lemma transcoded_bounds:
  assumes "0 < width v"
  shows "\<not> has_audio (transcoded (sticker_options i out) v) \<and>
   duration_ms (transcoded (sticker_options i out) v) \<le> 3000 \<and>
   frame_rate (transcoded (sticker_options i out) v) = 30 \<and>
   width (transcoded (sticker_options i out) v) \<le> 512 \<and>
   width (transcoded (sticker_options i out) v) \<le> width v"
  using scale_width_bound [OF assms, of "height v"]
  by (simp add: transcoded_sticker_options)




lemmas test_video_defs = video_to_sticker_webm_def transcode_in_def test_video_env_def
  ensure_ffmpeg_def write_bytes_def ffmpeg_cmd_def path_exists_def read_bytes_def rmtree_def
  under_def Let_def


lemma run_crash:
  "video_to_sticker_webm (test_video_env True (- 11)) (ascii ''ffmpeg'')
     \<lparr>dirs = [ascii ''/tmp''], files = []\<rparr> [71, 73, 70] =
   ([Mkdtemp (ascii ''/tmp/tmpq1''), WriteBytes (ascii ''/tmp/tmpq1/in.bin''),
     Run (ffmpeg_cmd (ascii ''ffmpeg'') (ascii ''/tmp/tmpq1/in.bin'') (ascii ''/tmp/tmpq1/out.webm'')),
     Rmtree (ascii ''/tmp/tmpq1'')],
    \<lparr>dirs = [ascii ''/tmp''], files = []\<rparr>,
    Inl (Exn RuntimeError (ascii ''FFmpeg failed: log'')))"
  by (simp add: test_video_defs) (simp add: ascii_def)


section \<open>The error for an unsupported payload\<close>

text \<open>
  The error of a transcoder run that ends with a non-zero exit status, and the messages
  of the errors that the program raises itself.
\<close>

lemma transcoder_failure_error:
  assumes "which venv ffmpeg \<noteq> None"
    and "mkdtemp venv fs = Inr td"
    and "write_error venv (fs\<lparr>dirs := td # dirs fs\<rparr>) (td @ ascii ''/in.bin'') = None"
    and "subprocess_run venv
           (ffmpeg_cmd ffmpeg (td @ ascii ''/in.bin'') (td @ ascii ''/out.webm''))
           (fs\<lparr>dirs := td # dirs fs, files := (td @ ascii ''/in.bin'', src) # files fs\<rparr>) =
         Inr (proc, fs2)"
    and "returncode proc \<noteq> 0"
  shows "snd (snd (video_to_sticker_webm venv ffmpeg fs src)) =
           Inl (Exn RuntimeError
                  (ascii ''FFmpeg failed: '' @ take 500 (decode_ignore venv (stderr proc))))"
  using assms
  by (simp add: video_to_sticker_webm_def transcode_in_def write_bytes_def ensure_ffmpeg_def Let_def)

lemma unsupported_message_differs:
  "ascii ''Unsupported message type.'' \<noteq> ascii ''No message to process.''"
  "ascii ''Unsupported message type.'' \<noteq>
     ascii ''FFmpeg not found. Please install FFmpeg and ensure it'' @ ascii [CHR 0x27] @
     ascii ''s in PATH.''"
  "ascii ''Unsupported message type.'' \<noteq> ascii ''FFmpeg failed: '' @ detail"
  by (simp_all add: ascii_def)

text \<open>
  Claim C9, as stated, fails: the error raised for a message without media is not of
  a kind of its own. For a text message \<^verbatim>\<open>tg_download_to_bytes\<close> raises a
  \<^verbatim>\<open>RuntimeError\<close>, and the errors raised for a missing message, for an unresolvable
  transcoder and for a transcoder run that crashed are of this same exception class.
\<close>

theorem unsupported_error_shares_class:
  "tg_download_to_bytes test_download_env (Some text_message) =
     Inl (Exn RuntimeError (ascii ''Unsupported message type.''))
   \<and> isl (tg_download_to_bytes test_download_env None)
   \<and> exn_type (projl (tg_download_to_bytes test_download_env (Some text_message))) =
       exn_type (projl (tg_download_to_bytes test_download_env None))
   \<and> isl (ensure_ffmpeg False)
   \<and> exn_type (projl (tg_download_to_bytes test_download_env (Some text_message))) =
       exn_type (projl (ensure_ffmpeg False))
   \<and> isl (snd (snd (video_to_sticker_webm (test_video_env True (- 11)) (ascii ''ffmpeg'')
        \<lparr>dirs = [ascii ''/tmp''], files = []\<rparr> [71, 73, 70])))
   \<and> exn_type (projl (tg_download_to_bytes test_download_env (Some text_message))) =
       exn_type (projl (snd (snd (video_to_sticker_webm (test_video_env True (- 11))
         (ascii ''ffmpeg'') \<lparr>dirs = [ascii ''/tmp''], files = []\<rparr> [71, 73, 70]))))"
  by (simp add: run_crash)
     (simp add: tg_download_to_bytes_def text_message_def ensure_ffmpeg_def)

text \<open>
  Claim C9, amended. For every message that carries no photo, animation, video or
  document, \<^verbatim>\<open>tg_download_to_bytes\<close> raises a \<^verbatim>\<open>RuntimeError\<close> with the message
  \<^verbatim>\<open>Unsupported message type.\<close>, whatever the library calls would do. The error has
  the exception class of the errors that the program raises for a missing message, for
  an unresolvable transcoder and for a transcoder run with a non-zero exit status, and
  differs from each of them in its message.
\<close>

theorem unsupported_payload_runtime_error:
  "(no_media msg \<longrightarrow>
      tg_download_to_bytes env (Some msg) =
        Inl (Exn RuntimeError (ascii ''Unsupported message type.'')))
   \<and> (no_media msg \<longrightarrow>
        exn_type (projl (tg_download_to_bytes env (Some msg))) =
          exn_type (projl (tg_download_to_bytes env None)) \<and>
        exn_message (projl (tg_download_to_bytes env (Some msg))) \<noteq>
          exn_message (projl (tg_download_to_bytes env None)) \<and>
        exn_type (projl (tg_download_to_bytes env (Some msg))) =
          exn_type (projl (ensure_ffmpeg False)) \<and>
        exn_message (projl (tg_download_to_bytes env (Some msg))) \<noteq>
          exn_message (projl (ensure_ffmpeg False)))
   \<and> (no_media msg \<and> which venv ffmpeg \<noteq> None \<and> mkdtemp venv fs = Inr td \<and>
       write_error venv (fs\<lparr>dirs := td # dirs fs\<rparr>) (td @ ascii ''/in.bin'') = None \<and>
       subprocess_run venv
           (ffmpeg_cmd ffmpeg (td @ ascii ''/in.bin'') (td @ ascii ''/out.webm''))
           (fs\<lparr>dirs := td # dirs fs, files := (td @ ascii ''/in.bin'', src) # files fs\<rparr>) =
         Inr (proc, fs2) \<and>
       returncode proc \<noteq> 0 \<longrightarrow>
        isl (snd (snd (video_to_sticker_webm venv ffmpeg fs src))) \<and>
        exn_type (projl (tg_download_to_bytes env (Some msg))) =
          exn_type (projl (snd (snd (video_to_sticker_webm venv ffmpeg fs src)))) \<and>
        exn_message (projl (tg_download_to_bytes env (Some msg))) \<noteq>
          exn_message (projl (snd (snd (video_to_sticker_webm venv ffmpeg fs src)))))"
proof (intro conjI impI)
  show r: "tg_download_to_bytes env (Some msg) =
      Inl (Exn RuntimeError (ascii ''Unsupported message type.''))" if "no_media msg"
    using that by (simp add: tg_download_to_bytes_def no_media_def)
  have n: "tg_download_to_bytes env None = Inl (Exn RuntimeError (ascii ''No message to process.''))"
    by (simp add: tg_download_to_bytes_def)
  have f: "ensure_ffmpeg False = Inl (Exn RuntimeError
        (ascii ''FFmpeg not found. Please install FFmpeg and ensure it'' @ ascii [CHR 0x27] @
         ascii ''s in PATH.''))"
    by (simp add: ensure_ffmpeg_def)
  show "exn_type (projl (tg_download_to_bytes env (Some msg))) =
          exn_type (projl (tg_download_to_bytes env None))" if "no_media msg"
    using r [OF that] n by simp
  show "exn_message (projl (tg_download_to_bytes env (Some msg))) \<noteq>
          exn_message (projl (tg_download_to_bytes env None))" if "no_media msg"
    using r [OF that] n unsupported_message_differs(1) by simp
  show "exn_type (projl (tg_download_to_bytes env (Some msg))) =
          exn_type (projl (ensure_ffmpeg False))" if "no_media msg"
    using r [OF that] f by simp
  show "exn_message (projl (tg_download_to_bytes env (Some msg))) \<noteq>
          exn_message (projl (ensure_ffmpeg False))" if "no_media msg"
    using r [OF that] f unsupported_message_differs(2) by simp
next
  assume h: "no_media msg \<and> which venv ffmpeg \<noteq> None \<and> mkdtemp venv fs = Inr td \<and>
       write_error venv (fs\<lparr>dirs := td # dirs fs\<rparr>) (td @ ascii ''/in.bin'') = None \<and>
       subprocess_run venv
           (ffmpeg_cmd ffmpeg (td @ ascii ''/in.bin'') (td @ ascii ''/out.webm''))
           (fs\<lparr>dirs := td # dirs fs, files := (td @ ascii ''/in.bin'', src) # files fs\<rparr>) =
         Inr (proc, fs2) \<and>
       returncode proc \<noteq> 0"
  then have r: "tg_download_to_bytes env (Some msg) =
      Inl (Exn RuntimeError (ascii ''Unsupported message type.''))"
    by (simp add: tg_download_to_bytes_def no_media_def)
  from h have h1: "which venv ffmpeg \<noteq> None"
    and h2: "mkdtemp venv fs = Inr td"
    and h3: "write_error venv (fs\<lparr>dirs := td # dirs fs\<rparr>) (td @ ascii ''/in.bin'') = None"
    and h4: "subprocess_run venv
           (ffmpeg_cmd ffmpeg (td @ ascii ''/in.bin'') (td @ ascii ''/out.webm''))
           (fs\<lparr>dirs := td # dirs fs, files := (td @ ascii ''/in.bin'', src) # files fs\<rparr>) =
         Inr (proc, fs2)"
    and h5: "returncode proc \<noteq> 0"
    by blast+
  have v: "snd (snd (video_to_sticker_webm venv ffmpeg fs src)) =
           Inl (Exn RuntimeError
                  (ascii ''FFmpeg failed: '' @ take 500 (decode_ignore venv (stderr proc))))"
    by (rule transcoder_failure_error [OF h1 h2 h3 h4 h5])
  show "isl (snd (snd (video_to_sticker_webm venv ffmpeg fs src)))"
    by (simp add: v)
  show "exn_type (projl (tg_download_to_bytes env (Some msg))) =
          exn_type (projl (snd (snd (video_to_sticker_webm venv ffmpeg fs src))))"
    by (simp add: v r)
  show "exn_message (projl (tg_download_to_bytes env (Some msg))) \<noteq>
          exn_message (projl (snd (snd (video_to_sticker_webm venv ffmpeg fs src))))"
    using unsupported_message_differs(3) by (simp add: v r)
qed

text \<open>
  The amended C9 on a text message and a transcoder run that is killed by a signal.
\<close>

theorem unsupported_payload_runtime_error_witness:
  "no_media text_message
   \<and> tg_download_to_bytes test_download_env (Some text_message) =
       Inl (Exn RuntimeError (ascii ''Unsupported message type.''))
   \<and> exn_type (projl (tg_download_to_bytes test_download_env (Some text_message))) =
       exn_type (projl (tg_download_to_bytes test_download_env None))
   \<and> exn_type (projl (tg_download_to_bytes test_download_env (Some text_message))) =
       exn_type (projl (ensure_ffmpeg False))
   \<and> which (test_video_env True (- 11)) (ascii ''ffmpeg'') \<noteq> None
   \<and> returncode \<lparr>returncode = - 11, stderr = ascii ''log''\<rparr> \<noteq> 0
   \<and> exn_type (projl (tg_download_to_bytes test_download_env (Some text_message))) =
       exn_type (projl (snd (snd (video_to_sticker_webm (test_video_env True (- 11))
         (ascii ''ffmpeg'') \<lparr>dirs = [ascii ''/tmp''], files = []\<rparr> [71, 73, 70]))))
   \<and> exn_message (projl (tg_download_to_bytes test_download_env (Some text_message))) \<noteq>
       exn_message (projl (snd (snd (video_to_sticker_webm (test_video_env True (- 11))
         (ascii ''ffmpeg'') \<lparr>dirs = [ascii ''/tmp''], files = []\<rparr> [71, 73, 70]))))"
proof -
  let ?fs = "\<lparr>dirs = [ascii ''/tmp''], files = []\<rparr>"
  let ?td = "ascii ''/tmp/tmpq1''"
  let ?venv = "test_video_env True (- 11)"
  let ?proc = "\<lparr>returncode = - 11, stderr = ascii ''log''\<rparr>"
  let ?fs1 = "?fs\<lparr>dirs := ?td # dirs ?fs, files := (?td @ ascii ''/in.bin'', [71, 73, 70]) # files ?fs\<rparr>"
  let ?cmd = "ffmpeg_cmd (ascii ''ffmpeg'') (?td @ ascii ''/in.bin'') (?td @ ascii ''/out.webm'')"
  have h: "no_media text_message"
    by (simp add: no_media_def text_message_def)
  have w: "which ?venv (ascii ''ffmpeg'') \<noteq> None"
    by (simp add: test_video_env_def)
  have m: "mkdtemp ?venv ?fs = Inr ?td"
    by (simp add: test_video_env_def)
  have we: "write_error ?venv (?fs\<lparr>dirs := ?td # dirs ?fs\<rparr>) (?td @ ascii ''/in.bin'') = None"
    by (simp add: test_video_env_def)
  have run: "subprocess_run ?venv ?cmd ?fs1 =
      Inr (?proc, ?fs1\<lparr>files := (last ?cmd, [26, 69, 223, 163]) # files ?fs1\<rparr>)"
    by (simp add: test_video_env_def)
  have rc: "returncode ?proc \<noteq> 0"
    by simp
  from unsupported_payload_runtime_error [of text_message test_download_env ?venv
      "ascii ''ffmpeg''" ?fs ?td "[71, 73, 70]" ?proc
      "?fs1\<lparr>files := (last ?cmd, [26, 69, 223, 163]) # files ?fs1\<rparr>"]
    h w m we run rc
  show ?thesis by blast
qed


end
